theory Spec2Isabelle
  imports Complex_Main "HOL-Library.Sublist" "HOL-Library.AList"
begin

section \<open>Data model\<close>

text \<open>
  The retrieval pipeline of DocuChat-AI: \<^verbatim>\<open>src/ingestion.py\<close>, \<^verbatim>\<open>src/embeddings.py\<close>,
  \<^verbatim>\<open>src/retriever.py\<close>, \<^verbatim>\<open>src/llm.py\<close> and \<^verbatim>\<open>src/chatbot.py\<close>.

  A langchain \<^verbatim>\<open>Document\<close> is a text with a metadata dictionary. The dictionary is an
  association list (Python dictionaries keep insertion order); the values met in the code are
  strings (\<^verbatim>\<open>filename\<close>, \<^verbatim>\<open>source\<close>) and integers (\<^verbatim>\<open>page\<close>, \<^verbatim>\<open>chunk_id\<close>).
\<close>

datatype meta_value = MStr string | MInt int

record document =
  page_content :: string
  metadata :: "(string \<times> meta_value) list"

text \<open>The message classes of \<^verbatim>\<open>langchain.schema\<close> that the code tells apart by \<^verbatim>\<open>isinstance\<close>.\<close>

datatype message = HumanMessage string | AIMessage string | SystemMessage string

text \<open>
  Exceptions are values. \<^verbatim>\<open>ValueError\<close> is raised by \<^verbatim>\<open>VectorStoreManager\<close>;
  \<^verbatim>\<open>GenerationError\<close> stands for any exception raised by the call of the language model,
  with the text \<^verbatim>\<open>str(e)\<close>.
\<close>

datatype error = ValueError string | GenerationError string

text \<open>
  The external collaborators of one session, fixed when the components are constructed:
  the language model (a prompt gives a text or raises), the embedder together with the metric
  of the index (the distance between the embeddings of two texts, and their similarity as used
  by the diversity selection), the weight of that selection, the text splitter and the
  configured default \<^verbatim>\<open>k\<close> (\<^verbatim>\<open>config['retrieval']['k']\<close>).
  Scores are Python floats; they are rational numbers here, so every comparison is exact.
\<close>

record env =
  llm :: "string \<Rightarrow> error + string"
  distance :: "string \<Rightarrow> string \<Rightarrow> rat"
  similarity :: "string \<Rightarrow> string \<Rightarrow> rat"
  mmr_weight :: rat
  split_text :: "string \<Rightarrow> string list"
  config_k :: int

subsection \<open>The vector index (Chroma)\<close>

text \<open>
  The index holds the stored units in insertion order; the identity of a stored record is its
  position in that list.
\<close>

datatype vector_index = Chroma (records: "document list")

text \<open>
  The directory \<^verbatim>\<open>persist_directory\<close>: it does not exist, it exists and holds an index, or it
  exists and the constructor of the index raises on it.
\<close>

datatype persist_dir = Missing | Stored vector_index | Unreadable

record vs_manager =
  vector_store :: "vector_index option"
  persist_directory :: persist_dir

text \<open>
  Modelled from the spec: the index class \<^verbatim>\<open>Chroma\<close> is a library that is not part of the
  repository. Its contract is the one of section 4.2: \<^verbatim>\<open>query(text, k)\<close> returns the \<open>k\<close>
  nearest records by vector distance, ascending, each with its distance; an index with fewer
  than \<open>k\<close> records returns what it has. Records are paired with their position.
\<close>

definition nearest ::
  "env \<Rightarrow> vector_index \<Rightarrow> string \<Rightarrow> int \<Rightarrow> ((nat \<times> document) \<times> rat) list" where
  "nearest e ix q k =
     take (nat k)
       (sort_key snd
         (map (\<lambda>r. (r, distance e q (page_content (snd r)))) (enumerate 0 (records ix))))"

text \<open>
  Modelled from the spec: \<^verbatim>\<open>Chroma.similarity_search_with_score\<close> is \<^verbatim>\<open>query(text, k)\<close>,
  and \<^verbatim>\<open>Chroma.similarity_search\<close> is the same query without the distances (section 4.3:
  the basic policy is \<^verbatim>\<open>query(q, k)\<close>, unfiltered).
\<close>

definition chroma_similarity_search_with_score ::
  "env \<Rightarrow> vector_index \<Rightarrow> string \<Rightarrow> int \<Rightarrow> (document \<times> rat) list" where
  "chroma_similarity_search_with_score e ix q k =
     map (\<lambda>(r, score). (snd r, score)) (nearest e ix q k)"

definition chroma_similarity_search ::
  "env \<Rightarrow> vector_index \<Rightarrow> string \<Rightarrow> int \<Rightarrow> document list" where
  \<comment> \<open>Modelled from the spec: \<^verbatim>\<open>query(text, k)\<close> without the distances\<close>
  "chroma_similarity_search e ix q k = map (\<lambda>(r, score). snd r) (nearest e ix q k)"

subsection \<open>\<^verbatim>\<open>VectorStoreManager\<close> (\<^verbatim>\<open>src/embeddings.py\<close>)\<close>

text \<open>
  Every method takes the manager and returns it updated, with the value returned or the
  exception raised.
\<close>

definition load_vector_store :: "vs_manager \<Rightarrow> vector_index option \<times> vs_manager" where
  "load_vector_store m =
     (case persist_directory m of
        Missing \<Rightarrow> (None, m)
      | Stored ix \<Rightarrow> (Some ix, m\<lparr>vector_store := Some ix\<rparr>)
      | Unreadable \<Rightarrow> (None, m))"

definition ensure_loaded :: "vs_manager \<Rightarrow> vs_manager" where
  \<comment> \<open>\<^verbatim>\<open>if self.vector_store is None: self.vector_store = self.load_vector_store()\<close>\<close>
  "ensure_loaded m =
     (if vector_store m = None
      then (case load_vector_store m of (r, m') \<Rightarrow> m'\<lparr>vector_store := r\<rparr>)
      else m)"

definition similarity_search ::
  "env \<Rightarrow> vs_manager \<Rightarrow> string \<Rightarrow> int \<Rightarrow> (error + document list) \<times> vs_manager" where
  "similarity_search e m q k =
     (let m' = ensure_loaded m in
      case vector_store m' of
        None \<Rightarrow> (Inl (ValueError ''No vector store available. Create one first.''), m')
      | Some ix \<Rightarrow> (Inr (chroma_similarity_search e ix q k), m'))"

definition similarity_search_with_score ::
  "env \<Rightarrow> vs_manager \<Rightarrow> string \<Rightarrow> int \<Rightarrow> (error + (document \<times> rat) list) \<times> vs_manager" where
  "similarity_search_with_score e m q k =
     (let m' = ensure_loaded m in
      case vector_store m' of
        None \<Rightarrow> (Inl (ValueError ''No vector store available. Create one first.''), m')
      | Some ix \<Rightarrow> (Inr (chroma_similarity_search_with_score e ix q k), m'))"

definition delete_vector_store :: "vs_manager \<Rightarrow> vs_manager" where
  \<comment> \<open>\<^verbatim>\<open>shutil.rmtree\<close> when the directory exists, then \<^verbatim>\<open>self.vector_store = None\<close>\<close>
  "delete_vector_store m = m\<lparr>persist_directory := Missing, vector_store := None\<rparr>"

subsection \<open>\<^verbatim>\<open>AdvancedRetriever\<close> (\<^verbatim>\<open>src/retriever.py\<close>)\<close>

definition default_k :: "env \<Rightarrow> int option \<Rightarrow> int" where
  \<comment> \<open>\<^verbatim>\<open>if k is None: k = self.k\<close>\<close>
  "default_k e k = (case k of None \<Rightarrow> config_k e | Some k' \<Rightarrow> k')"

definition retrieve ::
  "env \<Rightarrow> vs_manager \<Rightarrow> string \<Rightarrow> int option \<Rightarrow> (error + document list) \<times> vs_manager" where
  "retrieve e m q k = similarity_search e m q (default_k e k)"

definition retrieve_with_scores ::
  "env \<Rightarrow> vs_manager \<Rightarrow> string \<Rightarrow> int option
     \<Rightarrow> (error + (document \<times> rat) list) \<times> vs_manager" where
  "retrieve_with_scores e m q k = similarity_search_with_score e m q (default_k e k)"

definition retrieve_with_threshold ::
  "env \<Rightarrow> vs_manager \<Rightarrow> string \<Rightarrow> int option \<Rightarrow> rat
     \<Rightarrow> (error + document list) \<times> vs_manager" where
  "retrieve_with_threshold e m q k score_threshold =
     (case similarity_search_with_score e m q (default_k e k) of
        (Inl err, m') \<Rightarrow> (Inl err, m')
      | (Inr results, m') \<Rightarrow>
          (Inr (map fst (filter (\<lambda>(doc, score). score \<le> 1 - score_threshold) results)), m'))"

text \<open>
  Modelled from the spec: \<^verbatim>\<open>Chroma.max_marginal_relevance_search\<close> is a library method that
  is not part of the repository. Section 4.2, \<^verbatim>\<open>query_diverse(text, k, fetch_k)\<close>: retrieve
  the \<open>fetch_k\<close> nearest candidates by vector distance, then greedily select \<open>k\<close> of them,
  each time the candidate that maximizes a weighted combination of its relevance to the query
  and its dissimilarity to the units selected so far. A selected candidate leaves the pool.
\<close>

definition mmr_score :: "env \<Rightarrow> string \<Rightarrow> document list \<Rightarrow> document \<Rightarrow> rat" where
  \<comment> \<open>Modelled from the spec: relevance to the query against similarity to the selected units\<close>
  "mmr_score e q selected d =
     mmr_weight e * similarity e q (page_content d)
     - (1 - mmr_weight e)
       * fold max (map (\<lambda>s. similarity e (page_content d) (page_content s)) selected) 0"

fun best_candidate :: "('a \<Rightarrow> rat) \<Rightarrow> 'a \<Rightarrow> 'a list \<Rightarrow> 'a" where
  \<comment> \<open>Modelled from the spec: the first candidate of the highest score\<close>
  "best_candidate f b [] = b"
| "best_candidate f b (c # cs) = best_candidate f (if f b < f c then c else b) cs"

fun mmr_select ::
  "env \<Rightarrow> string \<Rightarrow> nat \<Rightarrow> (nat \<times> document) list \<Rightarrow> (nat \<times> document) list
     \<Rightarrow> (nat \<times> document) list" where
  \<comment> \<open>Modelled from the spec: the greedy selection of at most \<open>n\<close> more candidates\<close>
  "mmr_select e q 0 selected pool = selected"
| "mmr_select e q (Suc n) selected [] = selected"
| "mmr_select e q (Suc n) selected (c # cs) =
     (let b = best_candidate (\<lambda>r. mmr_score e q (map snd selected) (snd r)) c cs
      in mmr_select e q n (selected @ [b]) (remove1 b (c # cs)))"

definition query_diverse ::
  "env \<Rightarrow> vector_index \<Rightarrow> string \<Rightarrow> int \<Rightarrow> int \<Rightarrow> (nat \<times> document) list" where
  \<comment> \<open>Modelled from the spec: \<^verbatim>\<open>query_diverse(text, k, fetch_k)\<close>, the records selected\<close>
  "query_diverse e ix q k fetch_k = mmr_select e q (nat k) [] (map fst (nearest e ix q fetch_k))"

definition chroma_max_marginal_relevance_search ::
  "env \<Rightarrow> vector_index \<Rightarrow> string \<Rightarrow> int \<Rightarrow> int \<Rightarrow> document list" where
  \<comment> \<open>Modelled from the spec: the units of the records selected\<close>
  "chroma_max_marginal_relevance_search e ix q k fetch_k = map snd (query_diverse e ix q k fetch_k)"

definition retrieve_diverse :: "env \<Rightarrow> vs_manager \<Rightarrow> string \<Rightarrow> int option \<Rightarrow> document list" where
  \<comment> \<open>neither loads the index nor raises: without a loaded index the result is empty\<close>
  "retrieve_diverse e m q k =
     (let k' = default_k e k in
      case vector_store m of
        Some ix \<Rightarrow> chroma_max_marginal_relevance_search e ix q k' (k' * 3)
      | None \<Rightarrow> [])"

subsection \<open>Rendering the context\<close>

text \<open>Python's \<^verbatim>\<open>str\<close> of the values that are formatted into a text.\<close>

fun str_nat :: "nat \<Rightarrow> string" where
  "str_nat n =
     (if n < 10 then [''0123456789'' ! n]
      else str_nat (n div 10) @ [''0123456789'' ! (n mod 10)])"

definition str_int :: "int \<Rightarrow> string" where
  "str_int i = (if i < 0 then ''-'' @ str_nat (nat (- i)) else str_nat (nat i))"

fun str_meta :: "meta_value \<Rightarrow> string" where
  "str_meta (MStr s) = s"
| "str_meta (MInt i) = str_int i"

definition meta_get :: "(string \<times> meta_value) list \<Rightarrow> string \<Rightarrow> meta_value \<Rightarrow> meta_value" where
  \<comment> \<open>\<^verbatim>\<open>metadata.get(key, default)\<close>\<close>
  "meta_get md key dflt = (case map_of md key of None \<Rightarrow> dflt | Some v \<Rightarrow> v)"

fun join :: "string \<Rightarrow> string list \<Rightarrow> string" where
  "join sep [] = []"
| "join sep [x] = x"
| "join sep (x # y # ys) = x @ sep @ join sep (y # ys)"

definition context_part :: "nat \<Rightarrow> document \<Rightarrow> string" where
  "context_part i doc =
     ''[Document '' @ str_nat i @ ''] (Source: ''
       @ str_meta (meta_get (metadata doc) ''filename'' (MStr ''Unknown source''))
       @ '', Page: '' @ str_meta (meta_get (metadata doc) ''page'' (MStr ''N/A''))
       @ '')\<newline>'' @ page_content doc @ ''\<newline>''"

definition get_context_string :: "document list \<Rightarrow> string" where
  "get_context_string documents =
     join ''\<newline>---\<newline>'' (map (\<lambda>(i, doc). context_part i doc) (enumerate 1 documents))"

subsection \<open>\<^verbatim>\<open>LLMManager\<close> (\<^verbatim>\<open>src/llm.py\<close>)\<close>

text \<open>
  \<^verbatim>\<open>str.strip()\<close> and \<^verbatim>\<open>str.split()\<close> on the whitespace characters of the ASCII range
  (a \<^typ>\<open>char\<close> is a byte; Python also counts the Unicode spaces beyond it).
\<close>

definition isspace :: "char \<Rightarrow> bool" where
  "isspace c =
     (c \<in> set [CHR 0x09, CHR 0x0A, CHR 0x0B, CHR 0x0C, CHR 0x0D,
               CHR 0x1C, CHR 0x1D, CHR 0x1E, CHR 0x1F, CHR 0x20])"

definition strip :: "string \<Rightarrow> string" where
  "strip s = rev (dropWhile isspace (rev (dropWhile isspace s)))"

fun split_from :: "string \<Rightarrow> string \<Rightarrow> string list" where
  "split_from w [] = (if w = [] then [] else [w])"
| "split_from w (c # cs) =
     (if isspace c then (if w = [] then split_from [] cs else w # split_from [] cs)
      else split_from (w @ [c]) cs)"

definition split_words :: "string \<Rightarrow> string list" where
  "split_words s = split_from [] s"

definition error_text :: "error \<Rightarrow> string" where
  \<comment> \<open>\<^verbatim>\<open>str(e)\<close>\<close>
  "error_text err = (case err of ValueError t \<Rightarrow> t | GenerationError t \<Rightarrow> t)"

definition system_prompt_head :: string where
  \<open>system_prompt_head =
     ''You are a helpful AI assistant that answers questions based on the provided context.\<newline>''
     @ ''\<newline>''
     @ ''Instructions:\<newline>''
     @ ''1. Answer the question using ONLY the information from the context below\<newline>''
     @ ''2. If the context doesn't contain enough information, say "I don't have enough information in the provided documents to answer this question."\<newline>''
     @ ''3. Be concise but comprehensive\<newline>''
     @ ''4. Cite the source document when possible\<newline>''
     @ ''5. If asked about something not in the context, politely decline and explain why\<newline>''
     @ ''\<newline>''
     @ ''Context:\<newline>''\<close>

definition system_prompt_tail :: string where
  "system_prompt_tail =
     ''\<newline>\<newline>Remember: Only use information from the context above. Do not use your general knowledge.''"

definition system_message :: "string \<Rightarrow> string" where
  \<comment> \<open>\<^verbatim>\<open>self._get_system_prompt().format(context=context)\<close>\<close>
  "system_message ctx = system_prompt_head @ ctx @ system_prompt_tail"

definition last_messages :: "message list \<Rightarrow> message list" where
  \<comment> \<open>\<^verbatim>\<open>chat_history[-4:]\<close>: the whole list when it has fewer than four messages\<close>
  "last_messages h = drop (length h - 4) h"

fun render_message :: "message \<Rightarrow> string" where
  "render_message (HumanMessage c) = ''Human: '' @ c @ ''\<newline>''"
| "render_message (AIMessage c) = ''Assistant: '' @ c @ ''\<newline>''"
| "render_message (SystemMessage c) = []"

definition history_text :: "message list \<Rightarrow> string" where
  "history_text h = concat (map render_message (last_messages h))"

definition full_prompt :: "string \<Rightarrow> string \<Rightarrow> message list option \<Rightarrow> string" where
  \<comment> \<open>\<^verbatim>\<open>if chat_history:\<close> is false for \<^verbatim>\<open>None\<close> and for the empty list\<close>
  "full_prompt question ctx chat =
     system_message ctx @ ''\<newline>\<newline>''
     @ (case chat of
          None \<Rightarrow> []
        | Some h \<Rightarrow>
            if h = [] then []
            else ''Previous conversation:\<newline>'' @ history_text h @ ''\<newline>'')
     @ ''Human: '' @ question @ ''\<newline>\<newline>Assistant:''"

definition generate_answer :: "env \<Rightarrow> string \<Rightarrow> string \<Rightarrow> message list option \<Rightarrow> string" where
  "generate_answer e question ctx chat =
     (case llm e (full_prompt question ctx chat) of
        Inr response \<Rightarrow> strip response
      | Inl err \<Rightarrow>
          ''Error generating response: '' @ error_text err
            @ ''\<newline>\<newline>Please make sure Ollama is running.'')"

fun spaced :: "string list \<Rightarrow> string list" where
  \<comment> \<open>every word but the last is followed by a space\<close>
  "spaced [] = []"
| "spaced [w] = [w]"
| "spaced (w # v # ws) = (w @ '' '') # spaced (v # ws)"

definition generate_answer_streaming ::
  "env \<Rightarrow> string \<Rightarrow> string \<Rightarrow> message list option \<Rightarrow> string list" where
  \<comment> \<open>the fragments the generator yields, in order\<close>
  "generate_answer_streaming e question ctx chat =
     (case llm e (full_prompt question ctx chat) of
        Inr response \<Rightarrow> spaced (split_words response)
      | Inl err \<Rightarrow> [''Error: '' @ error_text err])"

definition rephrase_prompt :: "string \<Rightarrow> message list \<Rightarrow> string" where
  "rephrase_prompt question h =
     ''Given the conversation history, rephrase the follow-up question to be a standalone question.\<newline>''
     @ ''\<newline>''
     @ ''Chat History:\<newline>''
     @ history_text h @ ''\<newline>''
     @ ''\<newline>''
     @ ''Follow-up Question: '' @ question @ ''\<newline>''
     @ ''\<newline>''
     @ ''Rephrased Standalone Question:''"

definition rephrase_question :: "env \<Rightarrow> string \<Rightarrow> message list \<Rightarrow> string" where
  "rephrase_question e question h =
     (if h = [] then question
      else case llm e (rephrase_prompt question h) of
             Inr response \<Rightarrow> strip response
           | Inl err \<Rightarrow> question)"

subsection \<open>\<^verbatim>\<open>DocumentIngestion\<close> (\<^verbatim>\<open>src/ingestion.py\<close>)\<close>

text \<open>
  Modelled from the spec: \<^verbatim>\<open>RecursiveCharacterTextSplitter.split_documents\<close> is a library
  method that is not part of the repository. Section 4.1: the documents are split one after
  the other, each into the segments of its text, and every segment carries the metadata of the
  document it comes from. How a text is cut into segments is the parameter \<^const>\<open>split_text\<close>.
\<close>

definition split_documents :: "env \<Rightarrow> document list \<Rightarrow> document list" where
  "split_documents e documents =
     concat (map (\<lambda>d. map (\<lambda>t. \<lparr>page_content = t, metadata = metadata d\<rparr>)
                           (split_text e (page_content d))) documents)"

definition chunk_documents :: "env \<Rightarrow> document list \<Rightarrow> document list" where
  \<comment> \<open>\<^verbatim>\<open>for i, chunk in enumerate(chunks): chunk.metadata['chunk_id'] = i\<close>\<close>
  "chunk_documents e documents =
     map (\<lambda>(i, chunk).
            chunk\<lparr>metadata := AList.update ''chunk_id'' (MInt (int i)) (metadata chunk)\<rparr>)
         (enumerate 0 (split_documents e documents))"

text \<open>
  The chunk identifiers carried by the chunks of one source file, in emission order
  (\<^verbatim>\<open>load_document\<close> stores the path of the file under the key \<^verbatim>\<open>source\<close>).
\<close>

definition chunk_ids_of_source :: "string \<Rightarrow> document list \<Rightarrow> meta_value option list" where
  "chunk_ids_of_source src chunks =
     map (\<lambda>c. map_of (metadata c) ''chunk_id'')
         (filter (\<lambda>c. map_of (metadata c) ''source'' = Some (MStr src)) chunks)"

subsection \<open>Growing the index (\<^verbatim>\<open>src/embeddings.py\<close>)\<close>

text \<open>
  Modelled from the spec: \<^verbatim>\<open>Chroma.from_documents\<close> and \<^verbatim>\<open>Chroma.add_documents\<close> are
  library methods. Section 4.2, \<^verbatim>\<open>insert(units)\<close>: every unit is stored as a record; an
  index grows by the units inserted. \<^verbatim>\<open>persist()\<close> writes the index to the directory.
\<close>

definition create_vector_store :: "vs_manager \<Rightarrow> document list \<Rightarrow> vs_manager" where
  "create_vector_store m documents =
     m\<lparr>vector_store := Some (Chroma documents), persist_directory := Stored (Chroma documents)\<rparr>"

definition add_documents :: "vs_manager \<Rightarrow> document list \<Rightarrow> vs_manager" where
  "add_documents m documents =
     (let m' = ensure_loaded m in
      case vector_store m' of
        None \<Rightarrow> create_vector_store m' documents
      | Some ix \<Rightarrow>
          m'\<lparr>vector_store := Some (Chroma (records ix @ documents)),
             persist_directory := Stored (Chroma (records ix @ documents))\<rparr>)"

section \<open>\<^verbatim>\<open>RAGChatbot\<close> (\<^verbatim>\<open>src/chatbot.py\<close>)\<close>

text \<open>
  The counters start at zero and are only incremented: they are natural numbers. The running
  mean is a Python float; it is a rational number here, so the arithmetic is exact.
\<close>

record statistics =
  total_queries :: nat
  successful_retrievals :: nat
  average_context_length :: rat

record chatbot =
  vs :: vs_manager
  chat_history :: "message list"
  stats :: statistics

record source_info =
  filename :: meta_value
  page :: meta_value
  content_preview :: string

text \<open>
  The dictionary returned by \<^verbatim>\<open>query\<close>. The keys \<^verbatim>\<open>context\<close> and \<^verbatim>\<open>retrieved_docs\<close> are
  absent from the dictionary of the failure path.
\<close>

record response =
  answer :: string
  sources :: "source_info list"
  context_string :: "string option"
  retrieved_docs :: "nat option"
  success :: bool

definition zero_stats :: statistics where
  "zero_stats = \<lparr>total_queries = 0, successful_retrievals = 0, average_context_length = 0\<rparr>"

definition new_chatbot :: "persist_dir \<Rightarrow> chatbot" where
  \<comment> \<open>\<^verbatim>\<open>__init__\<close>: no index loaded, empty history, zero statistics\<close>
  "new_chatbot dir =
     \<lparr>vs = \<lparr>vector_store = None, persist_directory = dir\<rparr>,
      chat_history = [],
      stats = zero_stats\<rparr>"

text \<open>
  The dictionary returned by \<^verbatim>\<open>initialize_knowledge_base\<close>, with the keys \<^verbatim>\<open>success\<close>,
  \<^verbatim>\<open>message\<close>, \<^verbatim>\<open>chunks\<close> and \<^verbatim>\<open>documents\<close>; the last one (the number of different
  file names among the chunks) is absent when nothing was found.
\<close>

record init_result =
  init_success :: bool
  init_message :: string
  init_chunks :: nat
  init_documents :: "nat option"

text \<open>
  \<^verbatim>\<open>initialize_knowledge_base\<close>, from the documents that \<^verbatim>\<open>load_documents\<close> read in the
  directory (reading the files is outside the model).
\<close>

definition initialize_knowledge_base ::
  "env \<Rightarrow> chatbot \<Rightarrow> document list \<Rightarrow> init_result \<times> chatbot" where
  "initialize_knowledge_base e s loaded =
     (let cs = chunk_documents e loaded;
          done = \<lparr>init_success = True,
                  init_message = ''Knowledge base initialized successfully'',
                  init_chunks = length cs,
                  init_documents =
                    Some (length (remdups (map (\<lambda>c. map_of (metadata c) ''filename'') cs)))\<rparr>
      in if cs = []
         then (\<lparr>init_success = False, init_message = ''No documents found to process'',
                init_chunks = 0, init_documents = None\<rparr>, s)
         else
           case load_vector_store (vs s) of
             (Some ix, m) \<Rightarrow> (done, s\<lparr>vs := add_documents m cs\<rparr>)
           | (None, m) \<Rightarrow> (done, s\<lparr>vs := create_vector_store m cs\<rparr>))"

definition no_knowledge_base :: response where
  "no_knowledge_base =
     \<lparr>answer = ''No knowledge base found. Please initialize with documents first.'',
      sources = [],
      context_string = None,
      retrieved_docs = None,
      success = False\<rparr>"

definition count_query :: "chatbot \<Rightarrow> chatbot" where
  \<comment> \<open>\<^verbatim>\<open>self.stats["total_queries"] += 1\<close>\<close>
  "count_query s = s\<lparr>stats := (stats s)\<lparr>total_queries := total_queries (stats s) + 1\<rparr>\<rparr>"

definition load_if_needed :: "vs_manager \<Rightarrow> vs_manager" where
  \<comment> \<open>\<^verbatim>\<open>if self.vs_manager.vector_store is None: self.vs_manager.load_vector_store()\<close>\<close>
  "load_if_needed m = (if vector_store m = None then snd (load_vector_store m) else m)"

definition search_query_of :: "env \<Rightarrow> string \<Rightarrow> bool \<Rightarrow> message list \<Rightarrow> string" where
  "search_query_of e question use_history h =
     (if use_history \<and> h \<noteq> [] then rephrase_question e question h else question)"

definition default_score_threshold :: rat where
  "default_score_threshold = 0.7"

definition retrieve_by ::
  "env \<Rightarrow> vs_manager \<Rightarrow> string \<Rightarrow> string \<Rightarrow> int option
     \<Rightarrow> (error + document list) \<times> vs_manager" where
  "retrieve_by e m retrieval_method q k =
     (if retrieval_method = ''diverse'' then (Inr (retrieve_diverse e m q k), m)
      else if retrieval_method = ''threshold''
        then retrieve_with_threshold e m q k default_score_threshold
      else retrieve e m q k)"

definition record_context :: "statistics \<Rightarrow> document list \<Rightarrow> string \<Rightarrow> statistics" where
  \<comment> \<open>lines 117 to 125, with \<^verbatim>\<open>total_queries\<close> already incremented; \<^verbatim>\<open>len(context)\<close>
      is the number of characters of the context\<close>
  "record_context st documents ctx =
     (let st' = (if documents \<noteq> []
                 then st\<lparr>successful_retrievals := successful_retrievals st + 1\<rparr> else st)
      in st'\<lparr>average_context_length :=
               (average_context_length st' * of_nat (total_queries st' - 1)
                  + of_nat (length ctx)) / of_nat (total_queries st')\<rparr>)"

definition remember :: "message list \<Rightarrow> string \<Rightarrow> string \<Rightarrow> message list" where
  \<comment> \<open>lines 137 to 142: append the pair, then keep the last ten messages\<close>
  "remember h question ans =
     (let h' = h @ [HumanMessage question, AIMessage ans]
      in if length h' > 10 then drop (length h' - 10) h' else h')"

definition source_of :: "document \<Rightarrow> source_info" where
  "source_of doc =
     \<lparr>filename = meta_get (metadata doc) ''filename'' (MStr ''Unknown''),
      page = meta_get (metadata doc) ''page'' (MStr ''N/A''),
      content_preview = take 150 (page_content doc) @ ''...''\<rparr>"

definition query ::
  "env \<Rightarrow> chatbot \<Rightarrow> string \<Rightarrow> bool \<Rightarrow> string \<Rightarrow> int option
     \<Rightarrow> (error + response) \<times> chatbot" where
  "query e s question use_history retrieval_method k =
     (let s1 = count_query s;
          s2 = s1\<lparr>vs := load_if_needed (vs s1)\<rparr>
      in if vector_store (vs s2) = None then (Inr no_knowledge_base, s2)
         else
           let search_query = search_query_of e question use_history (chat_history s2)
           in case retrieve_by e (vs s2) retrieval_method search_query k of
                (Inl err, m) \<Rightarrow> (Inl err, s2\<lparr>vs := m\<rparr>)
              | (Inr documents, m) \<Rightarrow>
                  let ctx = get_context_string documents;
                      s3 = s2\<lparr>vs := m, stats := record_context (stats s2) documents ctx\<rparr>;
                      ans = generate_answer e question ctx
                              (if use_history then Some (chat_history s3) else None);
                      s4 = (if use_history
                            then s3\<lparr>chat_history := remember (chat_history s3) question ans\<rparr>
                            else s3)
                  in (Inr \<lparr>answer = ans,
                           sources = map source_of documents,
                           context_string = Some ctx,
                           retrieved_docs = Some (length documents),
                           success = True\<rparr>, s4))"

subsection \<open>The streaming variant\<close>

text \<open>
  \<^verbatim>\<open>query_streaming\<close> is a generator: its body runs only while the caller asks for the next
  item. A generator object is either not started, suspended at the \<^verbatim>\<open>yield\<close> (holding the
  fragments not yet yielded, the answer accumulated so far and the retrieved documents), or
  finished. One call of \<^verbatim>\<open>next\<close> yields an item, ends with \<^verbatim>\<open>StopIteration\<close> or raises;
  the session may have changed between two calls, so each call takes the current session.
\<close>

datatype generator = Created | Suspended "string list" string "document list" | Finished

record stream_item =
  chunk :: string
  item_sources :: "meta_value list"

datatype next_result = Yield stream_item | StopIteration | Raised error

definition stream_loop ::
  "string \<Rightarrow> bool \<Rightarrow> string list \<Rightarrow> string \<Rightarrow> document list \<Rightarrow> chatbot
     \<Rightarrow> next_result \<times> generator \<times> chatbot" where
  \<comment> \<open>the \<^verbatim>\<open>for\<close> loop from its head, and the update of the history after it\<close>
  "stream_loop question use_history rest full_answer documents s =
     (case rest of
        c # cs \<Rightarrow>
          (Yield \<lparr>chunk = c,
                  item_sources =
                    map (\<lambda>d. meta_get (metadata d) ''filename'' (MStr ''Unknown'')) documents\<rparr>,
           Suspended cs (full_answer @ c) documents, s)
      | [] \<Rightarrow>
          (StopIteration, Finished,
           if use_history
           then s\<lparr>chat_history :=
                    chat_history s @ [HumanMessage question, AIMessage full_answer]\<rparr>
           else s))"

definition query_streaming_next ::
  "env \<Rightarrow> string \<Rightarrow> bool \<Rightarrow> int option \<Rightarrow> generator \<times> chatbot
     \<Rightarrow> next_result \<times> generator \<times> chatbot" where
  "query_streaming_next e question use_history k gs =
     (case gs of
        (Created, s) \<Rightarrow>
          (let s1 = s\<lparr>vs := load_if_needed (vs s)\<rparr>;
               search_query = search_query_of e question use_history (chat_history s1)
           in case retrieve e (vs s1) search_query k of
                (Inl err, m) \<Rightarrow> (Raised err, Finished, s1\<lparr>vs := m\<rparr>)
              | (Inr documents, m) \<Rightarrow>
                  let ctx = get_context_string documents;
                      s2 = s1\<lparr>vs := m\<rparr>;
                      fragments = generate_answer_streaming e question ctx
                                    (if use_history then Some (chat_history s2) else None)
                  in stream_loop question use_history fragments [] documents s2)
      | (Suspended rest full_answer documents, s) \<Rightarrow>
          stream_loop question use_history rest full_answer documents s
      | (Finished, s) \<Rightarrow> (StopIteration, Finished, s))"

text \<open>A caller that asks for the next item \<open>n\<close> times, whatever it gets.\<close>

fun consume ::
  "env \<Rightarrow> string \<Rightarrow> bool \<Rightarrow> int option \<Rightarrow> nat \<Rightarrow> generator \<times> chatbot
     \<Rightarrow> generator \<times> chatbot" where
  "consume e question use_history k 0 gs = gs"
| "consume e question use_history k (Suc n) gs =
     consume e question use_history k n (snd (query_streaming_next e question use_history k gs))"

subsection \<open>Clearing\<close>

definition clear_history :: "chatbot \<Rightarrow> chatbot" where
  "clear_history s = s\<lparr>chat_history := []\<rparr>"

definition reset_knowledge_base :: "chatbot \<Rightarrow> chatbot" where
  "reset_knowledge_base s =
     (let s1 = s\<lparr>vs := delete_vector_store (vs s)\<rparr>;
          s2 = clear_history s1
      in s2\<lparr>stats := zero_stats\<rparr>)"

section \<open>A small session for the examples\<close>

definition doc_a :: document where
  "doc_a = \<lparr>page_content = ''alpha'',
            metadata = [(''source'', MStr ''a.txt''), (''filename'', MStr ''a.txt'')]\<rparr>"

definition doc_b :: document where
  "doc_b = \<lparr>page_content = ''beta'',
            metadata = [(''source'', MStr ''b.txt''), (''filename'', MStr ''b.txt'')]\<rparr>"

definition example_env :: env where
  "example_env =
     \<lparr>llm = (\<lambda>prompt. Inr ''fine''),
      distance = (\<lambda>q t. if t = ''alpha'' then 1 / 10 else 1 / 2),
      similarity = (\<lambda>a b. if a = b then 1 else 0),
      mmr_weight = 1 / 2,
      split_text = (\<lambda>t. if t = [] then [] else [t]),
      config_k = 2\<rparr>"

definition offline_env :: env where
  \<comment> \<open>the language model is unreachable: every call raises\<close>
  "offline_env = example_env\<lparr>llm := (\<lambda>prompt. Inl (GenerationError ''connection refused''))\<rparr>"

definition example_index :: vector_index where
  "example_index = Chroma [doc_a, doc_b]"

definition ready_manager :: vs_manager where
  "ready_manager =
     \<lparr>vector_store = Some example_index, persist_directory = Stored example_index\<rparr>"

definition ready_chatbot :: chatbot where
  "ready_chatbot = \<lparr>vs = ready_manager, chat_history = [], stats = zero_stats\<rparr>"

definition talked_chatbot :: chatbot where
  "talked_chatbot =
     ready_chatbot\<lparr>chat_history := [HumanMessage ''What is alpha?'', AIMessage ''fine'']\<rparr>"

text \<open>
  What one streaming call yields in a session: the documents it retrieves and the fragments of
  the answer, as computed by the first call of \<^verbatim>\<open>next\<close>.
\<close>

definition streamed_documents ::
  "env \<Rightarrow> chatbot \<Rightarrow> string \<Rightarrow> bool \<Rightarrow> int option \<Rightarrow> document list" where
  "streamed_documents e s question use_history k =
     (case retrieve e (load_if_needed (vs s))
             (search_query_of e question use_history (chat_history s)) k of
        (Inr documents, m) \<Rightarrow> documents
      | (Inl err, m) \<Rightarrow> [])"

definition streamed_fragments ::
  "env \<Rightarrow> chatbot \<Rightarrow> string \<Rightarrow> bool \<Rightarrow> int option \<Rightarrow> string list" where
  "streamed_fragments e s question use_history k =
     generate_answer_streaming e question
       (get_context_string (streamed_documents e s question use_history k))
       (if use_history then Some (chat_history s) else None)"

definition streamed_once :: "chatbot \<Rightarrow> chatbot" where
  \<comment> \<open>one streaming call with \<^verbatim>\<open>use_history\<close>, drained: the caller gets one fragment, then the end\<close>
  "streamed_once s = snd (consume example_env ''q'' True None 2 (Created, s))"

text \<open>
  The statistics agree with a list of observed context lengths: every counted query
  contributed one length, and the running mean is their arithmetic mean.
\<close>

definition mean_of_observed :: "statistics \<Rightarrow> nat list \<Rightarrow> bool" where
  "mean_of_observed st lens \<longleftrightarrow>
     total_queries st = length lens
     \<and> average_context_length st * of_nat (length lens) = of_nat (sum_list lens)"

section \<open>Retrieval policies\<close>

lemmas example_defs =
  example_env_def example_index_def ready_manager_def doc_a_def doc_b_def default_k_def

lemma map_doc_with_score:
  "map fst (chroma_similarity_search_with_score e ix q k) = chroma_similarity_search e ix q k"
  by (simp add: chroma_similarity_search_with_score_def chroma_similarity_search_def
      case_prod_unfold)

lemma subseq_map_fst_filter: "subseq (map fst (filter P xs)) (map fst xs)"
  by (rule subseq_map) (rule subseq_filter_left)

text \<open>
  Claim C4. For every query and every \<open>k\<close>, whenever the threshold policy returns, the basic
  policy returns for the same query and \<open>k\<close> (leaving the manager in the same state), every
  unit of the threshold result is a unit of the basic result, and the threshold result keeps
  the order of the basic ranking: it is a subsequence of it.
\<close>

theorem threshold_subset_of_basic:
  assumes "retrieve_with_threshold e m q k t = (Inr ts, m')"
  shows "\<exists>bs. retrieve e m q k = (Inr bs, m') \<and> subseq ts bs \<and> set ts \<subseteq> set bs"
proof (cases "vector_store (ensure_loaded m)")
  case None
  with assms show ?thesis
    by (simp add: retrieve_with_threshold_def similarity_search_with_score_def Let_def)
next
  case (Some ix)
  let ?rs = "chroma_similarity_search_with_score e ix q (default_k e k)"
  from Some assms have ts: "ts = map fst (filter (\<lambda>(doc, score). score \<le> 1 - t) ?rs)"
    and m': "m' = ensure_loaded m"
    by (auto simp: retrieve_with_threshold_def similarity_search_with_score_def Let_def)
  from Some have basic: "retrieve e m q k = (Inr (map fst ?rs), ensure_loaded m)"
    by (simp add: retrieve_def similarity_search_def Let_def map_doc_with_score)
  have sub: "subseq ts (map fst ?rs)"
    unfolding ts by (rule subseq_map_fst_filter)
  then have "set ts \<subseteq> set (map fst ?rs)"
    unfolding ts by auto
  with basic sub m' show ?thesis by blast
qed

theorem threshold_subset_of_basic_witness:
  "retrieve_with_threshold example_env ready_manager ''q'' (Some 2) (7 / 10)
     = (Inr [doc_a], ready_manager)
   \<and> (\<exists>bs. retrieve example_env ready_manager ''q'' (Some 2) = (Inr bs, ready_manager)
           \<and> subseq [doc_a] bs \<and> set [doc_a] \<subseteq> set bs)"
proof -
  have h: "retrieve_with_threshold example_env ready_manager ''q'' (Some 2) (7 / 10)
             = (Inr [doc_a], ready_manager)"
    by (simp add: retrieve_with_threshold_def similarity_search_with_score_def Let_def
        ensure_loaded_def chroma_similarity_search_with_score_def nearest_def example_defs)
  from threshold_subset_of_basic[OF h] h show ?thesis by simp
qed




subsection \<open>The diversity policy\<close>









section \<open>Answering a question\<close>

lemma load_if_needed_absent:
  assumes "vector_store m = None" and "\<forall>ix. persist_directory m \<noteq> Stored ix"
  shows "load_if_needed m = m"
  using assms by (cases "persist_directory m") (simp_all add: load_if_needed_def load_vector_store_def)

text \<open>
  Claim C3. When no index is loaded and none can be loaded from the directory, \<^verbatim>\<open>query\<close>
  does not raise, whatever the question and the other arguments: it returns the dictionary with
  \<^verbatim>\<open>success\<close> false, no sources and the message that tells the caller to initialize with
  documents first, and the session is the one before the call with \<^verbatim>\<open>total_queries\<close>
  incremented.
\<close>

theorem query_without_index_soft_failure:
  assumes "vector_store (vs s) = None" and "\<forall>ix. persist_directory (vs s) \<noteq> Stored ix"
  shows "query e s question use_history retrieval_method k =
           (Inr \<lparr>answer = ''No knowledge base found. Please initialize with documents first.'',
                 sources = [], context_string = None, retrieved_docs = None, success = False\<rparr>,
            s\<lparr>stats := (stats s)\<lparr>total_queries := total_queries (stats s) + 1\<rparr>\<rparr>)"
proof -
  have "load_if_needed (vs (count_query s)) = vs s"
    using load_if_needed_absent[OF assms] by (simp add: count_query_def)
  then show ?thesis
    using assms(1) by (simp add: query_def Let_def no_knowledge_base_def count_query_def)
qed

theorem query_without_index_soft_failure_witness:
  "vector_store (vs (new_chatbot Missing)) = None
   \<and> fst (query example_env (new_chatbot Missing) ''Who created Python?'' True ''basic'' None)
       = Inr \<lparr>answer = ''No knowledge base found. Please initialize with documents first.'',
              sources = [], context_string = None, retrieved_docs = None, success = False\<rparr>
   \<and> total_queries (stats (snd (query example_env (new_chatbot Missing)
         ''Who created Python?'' True ''basic'' None))) = 1"
proof -
  have h1: "vector_store (vs (new_chatbot Missing)) = None"
    by (simp add: new_chatbot_def)
  have h2: "\<forall>ix. persist_directory (vs (new_chatbot Missing)) \<noteq> Stored ix"
    by (simp add: new_chatbot_def)
  show ?thesis
    using query_without_index_soft_failure[OF h1 h2, of example_env "''Who created Python?''" True "''basic''" None] h1
    by (simp add: new_chatbot_def zero_stats_def)
qed

lemma retrieve_by_loaded:
  assumes "vector_store m = Some ix"
  shows "\<exists>docs. retrieve_by e m retrieval_method q k = (Inr docs, m)"
  using assms
  by (simp add: retrieve_by_def retrieve_def retrieve_with_threshold_def similarity_search_def
      similarity_search_with_score_def ensure_loaded_def Let_def)

lemma query_answered:
  assumes "vector_store (load_if_needed (vs s)) = Some ix"
    and "retrieve_by e (load_if_needed (vs s)) retrieval_method
           (search_query_of e question use_history (chat_history s)) k = (Inr docs, m)"
  shows "query e s question use_history retrieval_method k =
          (let ctx = get_context_string docs;
               st = record_context ((stats s)\<lparr>total_queries := total_queries (stats s) + 1\<rparr>) docs ctx;
               ans = generate_answer e question ctx (if use_history then Some (chat_history s) else None)
           in (Inr \<lparr>answer = ans, sources = map source_of docs, context_string = Some ctx,
                    retrieved_docs = Some (length docs), success = True\<rparr>,
               \<lparr>vs = m,
                chat_history = (if use_history then remember (chat_history s) question ans
                                else chat_history s),
                stats = st\<rparr>))"
  using assms by (simp add: query_def Let_def count_query_def)

text \<open>
  Claim C7. In a session with an index and a non-empty history, asked with \<^verbatim>\<open>use_history\<close>,
  a call of the language model that raises on the rephrasing prompt makes
  \<^verbatim>\<open>rephrase_question\<close> return the question unchanged; \<^verbatim>\<open>query\<close> then retrieves with
  the original question and returns a successful result built from those documents: nothing is
  raised to the caller.
\<close>

theorem rephrase_failure_falls_back:
  assumes "chat_history s \<noteq> []"
    and "vector_store (load_if_needed (vs s)) = Some ix"
    and "llm e (rephrase_prompt question (chat_history s)) = Inl err"
  shows "rephrase_question e question (chat_history s) = question
         \<and> (\<exists>docs m r s'. retrieve_by e (load_if_needed (vs s)) retrieval_method question k
                             = (Inr docs, m)
               \<and> query e s question True retrieval_method k = (Inr r, s')
               \<and> sources r = map source_of docs
               \<and> context_string r = Some (get_context_string docs)
               \<and> success r)"
proof -
  from assms(1,3) have rq: "rephrase_question e question (chat_history s) = question"
    by (simp add: rephrase_question_def)
  with assms(1) have sq: "search_query_of e question True (chat_history s) = question"
    by (simp add: search_query_of_def)
  from retrieve_by_loaded[OF assms(2)] obtain docs
    where docs: "retrieve_by e (load_if_needed (vs s)) retrieval_method question k
                   = (Inr docs, load_if_needed (vs s))"
    by blast
  from query_answered[OF assms(2), of e retrieval_method question True k docs] docs sq
  obtain r s' where "query e s question True retrieval_method k = (Inr r, s')"
    "sources r = map source_of docs" "context_string r = Some (get_context_string docs)" "success r"
    by (simp add: Let_def)
  with rq docs show ?thesis by blast
qed

theorem rephrase_failure_falls_back_witness:
  "chat_history talked_chatbot \<noteq> []
   \<and> vector_store (load_if_needed (vs talked_chatbot)) = Some example_index
   \<and> llm offline_env (rephrase_prompt ''And beta?'' (chat_history talked_chatbot))
       = Inl (GenerationError ''connection refused'')
   \<and> rephrase_question offline_env ''And beta?'' (chat_history talked_chatbot) = ''And beta?''"
proof -
  have h1: "chat_history talked_chatbot \<noteq> []"
    by (simp add: talked_chatbot_def)
  have h2: "vector_store (load_if_needed (vs talked_chatbot)) = Some example_index"
    by (simp add: talked_chatbot_def ready_chatbot_def ready_manager_def load_if_needed_def)
  have h3: "llm offline_env (rephrase_prompt ''And beta?'' (chat_history talked_chatbot))
              = Inl (GenerationError ''connection refused'')"
    by (simp add: offline_env_def)
  from rephrase_failure_falls_back[OF h1 h2 h3] h1 h2 h3 show ?thesis by simp
qed

text \<open>
  Claim C8. After \<^verbatim>\<open>reset_knowledge_base\<close> no index is loaded, the directory is gone, the
  history is empty and the three statistics are zero; a query issued next takes the failure
  path of a session without knowledge base, and leaves the session cleared but for the count of
  that query.
\<close>

theorem reset_clears_index_history_statistics:
  "vector_store (vs (reset_knowledge_base s)) = None
   \<and> persist_directory (vs (reset_knowledge_base s)) = Missing
   \<and> chat_history (reset_knowledge_base s) = []
   \<and> total_queries (stats (reset_knowledge_base s)) = 0
   \<and> successful_retrievals (stats (reset_knowledge_base s)) = 0
   \<and> average_context_length (stats (reset_knowledge_base s)) = 0
   \<and> query e (reset_knowledge_base s) question use_history retrieval_method k =
        (Inr \<lparr>answer = ''No knowledge base found. Please initialize with documents first.'',
              sources = [], context_string = None, retrieved_docs = None, success = False\<rparr>,
         \<lparr>vs = \<lparr>vector_store = None, persist_directory = Missing\<rparr>,
          chat_history = [],
          stats = \<lparr>total_queries = 1, successful_retrievals = 0, average_context_length = 0\<rparr>\<rparr>)"
proof -
  have r: "reset_knowledge_base s =
             \<lparr>vs = \<lparr>vector_store = None, persist_directory = Missing\<rparr>,
              chat_history = [], stats = zero_stats\<rparr>"
    by (simp add: reset_knowledge_base_def clear_history_def delete_vector_store_def Let_def)
  have "query e (reset_knowledge_base s) question use_history retrieval_method k =
        (Inr no_knowledge_base, count_query (reset_knowledge_base s))"
    unfolding r
    by (simp add: query_def Let_def count_query_def load_if_needed_def load_vector_store_def)
  then show ?thesis
    unfolding r by (simp add: zero_stats_def no_knowledge_base_def count_query_def)
qed

section \<open>Ingestion\<close>

lemma map_index_enumerate: "map (\<lambda>(i, c). g i) (enumerate n xs) = map g [n..<n + length xs]"
proof (induction xs arbitrary: n)
  case Nil
  then show ?case by simp
next
  case (Cons x xs)
  have "[n..<n + length (x # xs)] = n # [Suc n..<n + length (x # xs)]"
    by (rule upt_conv_Cons) simp
  then have "[n..<n + length (x # xs)] = n # [Suc n..<Suc n + length xs]"
    by simp
  with Cons[of "Suc n"] show ?case by (simp del: upt_Suc)
qed

lemma map_content_enumerate: "map (\<lambda>(i, c). h c) (enumerate n xs) = map h xs"
  by (induction xs arbitrary: n) simp_all

text \<open>
  Claim C9, as the code has it. \<^verbatim>\<open>chunk_documents\<close> numbers the chunks of the whole batch in
  emission order: the chunk emitted at position \<open>i\<close> of the batch, counted from 0 across all
  source documents, gets \<^verbatim>\<open>chunk_id\<close> \<open>i\<close>. The numbering changes neither the number of
  chunks nor their texts.
\<close>

theorem chunk_ids_number_the_whole_batch:
  "map (\<lambda>c. map_of (metadata c) ''chunk_id'') (chunk_documents e documents)
     = map (\<lambda>i. Some (MInt (int i))) [0..<length (split_documents e documents)]
   \<and> length (chunk_documents e documents) = length (split_documents e documents)
   \<and> map page_content (chunk_documents e documents)
       = map page_content (split_documents e documents)"
proof -
  let ?chunks = "split_documents e documents"
  have "map (\<lambda>c. map_of (metadata c) ''chunk_id'') (chunk_documents e documents)
          = map (\<lambda>(i, c). Some (MInt (int i))) (enumerate 0 ?chunks)"
    by (simp add: chunk_documents_def case_prod_unfold update_conv' comp_def)
  also have "\<dots> = map (\<lambda>i. Some (MInt (int i))) [0..<length ?chunks]"
    using map_index_enumerate[of "\<lambda>i. Some (MInt (int i))" 0 ?chunks] by simp
  finally have ids: "map (\<lambda>c. map_of (metadata c) ''chunk_id'') (chunk_documents e documents)
                       = map (\<lambda>i. Some (MInt (int i))) [0..<length ?chunks]" .
  have len: "length (chunk_documents e documents) = length ?chunks"
    by (simp add: chunk_documents_def)
  have "map page_content (chunk_documents e documents)
          = map (\<lambda>(i, c). page_content c) (enumerate 0 ?chunks)"
    by (simp add: chunk_documents_def case_prod_unfold comp_def)
  then have "map page_content (chunk_documents e documents) = map page_content ?chunks"
    by (simp only: map_content_enumerate)
  with ids len show ?thesis by simp
qed

text \<open>
  Claim C9, as stated, fails: in a batch of two files of one chunk each, the only chunk of the
  second file has \<^verbatim>\<open>chunk_id\<close> 1; the numbering does not restart at 0 for that file.
\<close>

theorem chunk_ids_restart_counterexample:
  "chunk_ids_of_source ''b.txt'' (chunk_documents example_env [doc_a, doc_b]) = [Some (MInt 1)]
   \<and> chunk_ids_of_source ''b.txt'' (chunk_documents example_env [doc_a, doc_b])
       \<noteq> [Some (MInt 0)]"
  by (simp add: chunk_ids_of_source_def chunk_documents_def split_documents_def
      example_env_def doc_a_def doc_b_def)

section \<open>Statistics and history\<close>

lemma remember_bounded: "length (remember h question ans) \<le> 10"
  by (simp add: remember_def Let_def)

lemma remember_even: "even (length h) \<Longrightarrow> even (length (remember h question ans))"
  by (auto simp: remember_def Let_def)

lemma query_keeps_history_bound:
  assumes "length (chat_history s) \<le> 10" and "even (length (chat_history s))"
  shows "length (chat_history (snd (query e s question u retrieval_method k))) \<le> 10
         \<and> even (length (chat_history (snd (query e s question u retrieval_method k))))"
proof (cases "vector_store (load_if_needed (vs s))")
  case None
  then show ?thesis
    using assms by (simp add: query_def Let_def count_query_def)
next
  case (Some ix)
  from retrieve_by_loaded[OF Some] obtain docs
    where "retrieve_by e (load_if_needed (vs s)) retrieval_method
             (search_query_of e question u (chat_history s)) k
           = (Inr docs, load_if_needed (vs s))"
    by blast
  from query_answered[OF Some this] assms show ?thesis
    by (simp add: Let_def remember_bounded remember_even)
qed

subsection \<open>Consuming a stream\<close>

lemma consume_add:
  "consume e q u k (a + b) gs = consume e q u k b (consume e q u k a gs)"
  by (induction a arbitrary: gs) simp_all

lemma consume_finished: "consume e q u k n (Finished, s) = (Finished, s)"
  by (induction n) (simp_all add: query_streaming_next_def)

lemma consume_suspended:
  "n \<le> length rest \<Longrightarrow>
     consume e q u k n (Suspended rest acc docs, s)
       = (Suspended (drop n rest) (acc @ concat (take n rest)) docs, s)"
proof (induction n arbitrary: rest acc)
  case 0
  then show ?case by simp
next
  case (Suc n)
  then obtain c cs where rest: "rest = c # cs" and n: "n \<le> length cs"
    by (cases rest) auto
  have "query_streaming_next e q u k (Suspended (c # cs) acc docs, s)
          = (Yield \<lparr>chunk = c,
                    item_sources =
                      map (\<lambda>d. meta_get (metadata d) ''filename'' (MStr ''Unknown'')) docs\<rparr>,
             Suspended cs (acc @ c) docs, s)"
    by (simp add: query_streaming_next_def stream_loop_def)
  with Suc.IH[OF n, of "acc @ c"] show ?case
    by (simp add: rest)
qed

lemma consume_suspended_drained:
  assumes "length rest < n"
  shows "consume e q u k n (Suspended rest acc docs, s)
           = (Finished,
              if u then s\<lparr>chat_history :=
                           chat_history s @ [HumanMessage q, AIMessage (acc @ concat rest)]\<rparr>
              else s)"
proof -
  from assms obtain d where n: "n = length rest + (1 + d)"
    by (metis Suc_eq_plus1_left less_iff_Suc_add add_Suc_right add.commute)
  have "consume e q u k (length rest) (Suspended rest acc docs, s)
          = (Suspended [] (acc @ concat rest) docs, s)"
    by (simp add: consume_suspended)
  then show ?thesis
    unfolding n consume_add
    by (simp add: query_streaming_next_def stream_loop_def consume_finished)
qed

lemma retrieve_loaded:
  assumes "vector_store m = Some ix"
  shows "retrieve e m q k = (Inr (chroma_similarity_search e ix q (default_k e k)), m)"
  using assms by (simp add: retrieve_def similarity_search_def ensure_loaded_def Let_def)

lemma first_next:
  assumes "vector_store (load_if_needed (vs s)) = Some ix"
  shows "query_streaming_next e q u k (Created, s)
           = query_streaming_next e q u k
               (Suspended (streamed_fragments e s q u k) [] (streamed_documents e s q u k),
                s\<lparr>vs := load_if_needed (vs s)\<rparr>)"
  using retrieve_loaded[OF assms]
  by (simp add: query_streaming_next_def streamed_fragments_def streamed_documents_def Let_def)

lemma consume_created:
  assumes "vector_store (load_if_needed (vs s)) = Some ix" and "0 < n"
  shows "consume e q u k n (Created, s)
           = consume e q u k n
               (Suspended (streamed_fragments e s q u k) [] (streamed_documents e s q u k),
                s\<lparr>vs := load_if_needed (vs s)\<rparr>)"
proof -
  from assms(2) obtain n' where "n = Suc n'" by (cases n) auto
  then show ?thesis by (simp add: first_next[OF assms(1)])
qed

lemma stream_not_drained:
  assumes "vector_store (load_if_needed (vs s)) = Some ix"
    and "n \<le> length (streamed_fragments e s q u k)"
  shows "chat_history (snd (consume e q u k n (Created, s))) = chat_history s
         \<and> stats (snd (consume e q u k n (Created, s))) = stats s
         \<and> fst (consume e q u k n (Created, s)) \<noteq> Finished"
proof (cases n)
  case 0
  then show ?thesis by simp
next
  case (Suc n')
  then have "0 < n" by simp
  from consume_created[OF assms(1) this] assms(2) show ?thesis
    by (simp add: consume_suspended)
qed

lemma stream_drained:
  assumes "vector_store (load_if_needed (vs s)) = Some ix"
    and "length (streamed_fragments e s q u k) < n"
  shows "consume e q u k n (Created, s)
           = (Finished,
              s\<lparr>vs := load_if_needed (vs s),
                chat_history :=
                  (if u then chat_history s
                             @ [HumanMessage q, AIMessage (concat (streamed_fragments e s q u k))]
                   else chat_history s)\<rparr>)"
proof -
  from assms(2) have "0 < n" by simp
  from consume_created[OF assms(1) this] assms(2) show ?thesis
    by (simp add: consume_suspended_drained)
qed

subsection \<open>Runs of the example session\<close>

lemma example_fragments: "streamed_fragments example_env s q u k = [''fine'']"
  by (simp add: streamed_fragments_def generate_answer_streaming_def example_env_def
      split_words_def isspace_def)

lemma example_stream_drained:
  assumes "vector_store (vs s) = Some ix"
  shows "consume example_env q True k 2 (Created, s)
           = (Finished, s\<lparr>chat_history := chat_history s @ [HumanMessage q, AIMessage ''fine'']\<rparr>)"
proof -
  from assms have loaded: "load_if_needed (vs s) = vs s"
    by (simp add: load_if_needed_def)
  with assms have ready: "vector_store (load_if_needed (vs s)) = Some ix"
    by simp
  have "length (streamed_fragments example_env s q True k) < 2"
    by (simp add: example_fragments)
  from stream_drained[OF ready this] show ?thesis
    by (simp add: example_fragments loaded)
qed

text \<open>
  Claim C10 at a session with an index: the stream of a call with \<^verbatim>\<open>use_history\<close> is drained
  by two calls of \<^verbatim>\<open>next\<close>; the pair is appended to the history, and the statistics are
  those before the call, while \<^verbatim>\<open>query\<close> on the same session and question counts the
  query, the retrieval and the length of the context.
\<close>

theorem drained_stream_leaves_statistics_untouched:
  "consume example_env ''q'' True None 2 (Created, ready_chatbot)
     = (Finished,
        \<lparr>vs = ready_manager,
         chat_history = [HumanMessage ''q'', AIMessage ''fine''],
         stats = \<lparr>total_queries = 0, successful_retrievals = 0, average_context_length = 0\<rparr>\<rparr>)
   \<and> stats (snd (query example_env ready_chatbot ''q'' True ''basic'' None))
       = \<lparr>total_queries = 1, successful_retrievals = 1, average_context_length = 96\<rparr>"
proof -
  have v: "vector_store (vs ready_chatbot) = Some example_index"
    by (simp add: ready_chatbot_def ready_manager_def)
  have streamed: "consume example_env ''q'' True None 2 (Created, ready_chatbot)
     = (Finished,
        \<lparr>vs = ready_manager,
         chat_history = [HumanMessage ''q'', AIMessage ''fine''],
         stats = \<lparr>total_queries = 0, successful_retrievals = 0, average_context_length = 0\<rparr>\<rparr>)"
    unfolding example_stream_drained[OF v]
    by (simp add: ready_chatbot_def zero_stats_def)
  have l: "vector_store (load_if_needed (vs ready_chatbot)) = Some example_index"
    using v by (simp add: load_if_needed_def)
  have docs: "retrieve_by example_env (load_if_needed (vs ready_chatbot)) ''basic''
                (search_query_of example_env ''q'' True (chat_history ready_chatbot)) None
              = (Inr [doc_a, doc_b], ready_manager)"
    by (simp add: retrieve_by_def retrieve_def similarity_search_def ensure_loaded_def Let_def
        load_if_needed_def chroma_similarity_search_def nearest_def search_query_of_def
        ready_chatbot_def example_defs)
  have len: "length (get_context_string [doc_a, doc_b]) = 96"
    by (simp add: get_context_string_def context_part_def meta_get_def doc_a_def doc_b_def)
  have "stats (snd (query example_env ready_chatbot ''q'' True ''basic'' None))
       = \<lparr>total_queries = 1, successful_retrievals = 1, average_context_length = 96\<rparr>"
    unfolding query_answered[OF l docs]
    by (simp add: Let_def record_context_def len ready_chatbot_def zero_stats_def)
  with streamed show ?thesis by simp
qed

lemma streamed_once_loaded:
  assumes "vector_store (vs s) = Some ix"
  shows "streamed_once s = s\<lparr>chat_history := chat_history s @ [HumanMessage ''q'', AIMessage ''fine'']\<rparr>"
  by (simp add: streamed_once_def example_stream_drained[OF assms])

text \<open>
  Claim C2 at a session with an index and an empty history: six streaming calls with
  \<^verbatim>\<open>use_history\<close>, each drained to its end, leave twelve messages in the history.
\<close>

theorem six_drained_streams_exceed_history_bound:
  "fst (consume example_env ''q'' True None 2 (Created, ready_chatbot)) = Finished
   \<and> length (chat_history
        (streamed_once (streamed_once (streamed_once
          (streamed_once (streamed_once (streamed_once ready_chatbot))))))) = 12"
proof -
  have v: "vector_store (vs ready_chatbot) = Some example_index"
    by (simp add: ready_chatbot_def ready_manager_def)
  have keep: "vector_store (vs (streamed_once s)) = Some example_index"
    if "vector_store (vs s) = Some example_index" for s
    using that by (simp add: streamed_once_loaded[OF that])
  have grow: "length (chat_history (streamed_once s)) = length (chat_history s) + 2"
    if "vector_store (vs s) = Some example_index" for s
    by (simp add: streamed_once_loaded[OF that])
  have "fst (consume example_env ''q'' True None 2 (Created, ready_chatbot)) = Finished"
    by (simp add: example_stream_drained[OF v])
  moreover have "length (chat_history ready_chatbot) = 0"
    by (simp add: ready_chatbot_def)
  ultimately show ?thesis
    using v by (simp add: keep grow)
qed

text \<open>
  Claim C1 at a new session without knowledge base: a first query fails softly, the knowledge
  base is then initialized with two documents, and a second query is answered from a context
  of 96 characters. One context length was observed, 96; the running mean is 48, since the
  divisor is the count of both queries.
\<close>

theorem failed_query_skews_running_mean:
  "let s1 = snd (query example_env (new_chatbot Missing) ''q'' True ''basic'' None);
       s2 = snd (initialize_knowledge_base example_env s1 [doc_a, doc_b]);
       answered = query example_env s2 ''q'' True ''basic'' None
   in fst (query example_env (new_chatbot Missing) ''q'' True ''basic'' None)
        = Inr no_knowledge_base
      \<and> map_sum id (\<lambda>r. (success r, map_option length (context_string r))) (fst answered)
          = Inr (True, Some 96)
      \<and> stats (snd answered)
          = \<lparr>total_queries = 2, successful_retrievals = 1, average_context_length = 48\<rparr>"
proof -
  define chunk_a where "chunk_a = doc_a\<lparr>metadata := metadata doc_a @ [(''chunk_id'', MInt 0)]\<rparr>"
  define chunk_b where "chunk_b = doc_b\<lparr>metadata := metadata doc_b @ [(''chunk_id'', MInt 1)]\<rparr>"
  define s1 where "s1 = snd (query example_env (new_chatbot Missing) ''q'' True ''basic'' None)"
  define s2 where "s2 = snd (initialize_knowledge_base example_env s1 [doc_a, doc_b])"
  have first: "query example_env (new_chatbot Missing) ''q'' True ''basic'' None
                 = (Inr no_knowledge_base,
                    \<lparr>vs = \<lparr>vector_store = None, persist_directory = Missing\<rparr>,
                     chat_history = [],
                     stats = \<lparr>total_queries = 1, successful_retrievals = 0,
                              average_context_length = 0\<rparr>\<rparr>)"
    by (simp add: query_def Let_def count_query_def load_if_needed_def load_vector_store_def
        new_chatbot_def zero_stats_def)
  have chunks: "chunk_documents example_env [doc_a, doc_b] = [chunk_a, chunk_b]"
    by (simp add: chunk_documents_def split_documents_def example_env_def doc_a_def doc_b_def
        chunk_a_def chunk_b_def)
  have s2: "s2 = \<lparr>vs = \<lparr>vector_store = Some (Chroma [chunk_a, chunk_b]),
                        persist_directory = Stored (Chroma [chunk_a, chunk_b])\<rparr>,
                  chat_history = [],
                  stats = \<lparr>total_queries = 1, successful_retrievals = 0,
                           average_context_length = 0\<rparr>\<rparr>"
    unfolding s2_def s1_def first
    by (simp add: initialize_knowledge_base_def chunks Let_def load_vector_store_def
        create_vector_store_def)
  have l: "vector_store (load_if_needed (vs s2)) = Some (Chroma [chunk_a, chunk_b])"
    by (simp add: s2 load_if_needed_def)
  have docs: "retrieve_by example_env (load_if_needed (vs s2)) ''basic''
                (search_query_of example_env ''q'' True (chat_history s2)) None
              = (Inr [chunk_a, chunk_b], vs s2)"
    by (simp add: retrieve_by_def retrieve_def similarity_search_def ensure_loaded_def Let_def
        load_if_needed_def chroma_similarity_search_def nearest_def search_query_of_def
        s2 example_env_def default_k_def chunk_a_def chunk_b_def doc_a_def doc_b_def)
  have len: "length (get_context_string [chunk_a, chunk_b]) = 96"
    by (simp add: get_context_string_def context_part_def meta_get_def doc_a_def doc_b_def
        chunk_a_def chunk_b_def)
  have answered: "map_sum id (\<lambda>r. (success r, map_option length (context_string r)))
                    (fst (query example_env s2 ''q'' True ''basic'' None)) = Inr (True, Some 96)"
    unfolding query_answered[OF l docs] by (simp add: Let_def len)
  have counted: "stats (snd (query example_env s2 ''q'' True ''basic'' None))
          = \<lparr>total_queries = 2, successful_retrievals = 1, average_context_length = 48\<rparr>"
    unfolding query_answered[OF l docs]
    by (simp add: Let_def record_context_def len s2)
  have failed: "fst (query example_env (new_chatbot Missing) ''q'' True ''basic'' None)
                  = Inr no_knowledge_base"
    by (simp add: first)
  from failed answered[unfolded s2_def s1_def] counted[unfolded s2_def s1_def]
  show ?thesis
    unfolding Let_def by blast
qed

subsection \<open>The running mean when no counted query failed\<close>

lemma record_context_mean:
  assumes "mean_of_observed (st\<lparr>total_queries := total_queries st - 1\<rparr>) lens"
    and "0 < total_queries st"
  shows "mean_of_observed (record_context st docs ctx) (lens @ [length ctx])"
proof -
  from assms have n: "total_queries st = Suc (length lens)"
    and m: "average_context_length st * of_nat (length lens) = of_nat (sum_list lens)"
    by (auto simp: mean_of_observed_def)
  have "average_context_length (record_context st docs ctx)
          = (of_nat (sum_list lens) + of_nat (length ctx)) / of_nat (Suc (length lens))"
    by (simp add: record_context_def Let_def n m)
  then show ?thesis
    by (simp add: mean_of_observed_def record_context_def Let_def n)
qed

lemma query_answered_keeps_mean:
  assumes "vector_store (load_if_needed (vs s)) = Some ix"
    and "mean_of_observed (stats s) lens"
  shows "\<exists>r ctx. fst (query e s question u retrieval_method k) = Inr r
            \<and> context_string r = Some ctx
            \<and> mean_of_observed (stats (snd (query e s question u retrieval_method k)))
                 (lens @ [length ctx])"
proof -
  from retrieve_by_loaded[OF assms(1)] obtain docs
    where docs: "retrieve_by e (load_if_needed (vs s)) retrieval_method
                   (search_query_of e question u (chat_history s)) k
                 = (Inr docs, load_if_needed (vs s))"
    by blast
  let ?st = "(stats s)\<lparr>total_queries := total_queries (stats s) + 1\<rparr>"
  from assms(2) have "mean_of_observed (?st\<lparr>total_queries := total_queries ?st - 1\<rparr>) lens"
    by (simp add: mean_of_observed_def)
  then have "mean_of_observed (record_context ?st docs (get_context_string docs))
               (lens @ [length (get_context_string docs)])"
    by (rule record_context_mean) simp
  with query_answered[OF assms(1) docs] show ?thesis
    by (simp add: Let_def)
qed

end
